theory Spec2Isabelle
  imports Complex_Main "HOL-Library.AList"
begin

section \<open>Values, strings and tables\<close>

text \<open>
  The program is a Python dashboard over spreadsheet data (\<^verbatim>\<open>src/main.py\<close>). Python
  strings are modelled as \<^typ>\<open>string\<close>; a cell of a table read by pandas is a string, a
  number or the missing value \<^verbatim>\<open>NaN\<close>. Numbers are exact rationals: the rounding of
  floating point is outside this model.
\<close>

datatype cell = Str string | Num rat | NaN

datatype error = ValueError | TypeError | AttributeError | RegexError | OSError

text \<open>Python's \<^verbatim>\<open>str.strip()\<close>: the characters for which \<^verbatim>\<open>isspace()\<close> holds, below code point 256.\<close>

definition is_space :: "char \<Rightarrow> bool" where
  "is_space c = (let n = (of_char c :: nat)
                 in (9 \<le> n \<and> n \<le> 13) \<or> (28 \<le> n \<and> n \<le> 32) \<or> n = 133 \<or> n = 160)"

definition strip :: "string \<Rightarrow> string" where
  "strip s = rev (dropWhile is_space (rev (dropWhile is_space s)))"

text \<open>\<^verbatim>\<open>str.lower()\<close> and case-insensitive matching, on the ASCII letters.\<close>

definition lower_char :: "char \<Rightarrow> char" where
  "lower_char c = (let n = (of_char c :: nat)
                   in if 65 \<le> n \<and> n \<le> 90 then char_of (n + 32) else c)"

definition lower :: "string \<Rightarrow> string" where
  "lower s = map lower_char s"

text \<open>\<^verbatim>\<open>pat in s\<close>: the pattern occurs in the string as a contiguous substring.\<close>

fun contains :: "string \<Rightarrow> string \<Rightarrow> bool" where
  "contains pat [] = (pat = [])"
| "contains pat (c # cs) = (take (length pat) (c # cs) = pat \<or> contains pat cs)"

text \<open>Truthiness of an optional string: \<^verbatim>\<open>None\<close> and \<^verbatim>\<open>''\<close> are false.\<close>

fun truthy :: "string option \<Rightarrow> bool" where
  "truthy None = False"
| "truthy (Some s) = (s \<noteq> [])"

text \<open>Truthiness of a cell: the empty string and zero are false, \<^verbatim>\<open>NaN\<close> is true.\<close>

fun cell_truthy :: "cell \<Rightarrow> bool" where
  "cell_truthy (Str s) = (s \<noteq> [])"
| "cell_truthy (Num r) = (r \<noteq> 0)"
| "cell_truthy NaN = True"

text \<open>
  A pandas \<^verbatim>\<open>DataFrame\<close>: the column labels and the rows, each row holding one cell per
  label. The model reads a column by its label, which is what pandas does when the labels
  are distinct; \<open>wf_frame\<close> says so, and that every row is as long as the header.
\<close>

record dataframe =
  columns :: "string list"
  rows :: "cell list list"


text \<open>\<^verbatim>\<open>pd.DataFrame()\<close> and \<^verbatim>\<open>df.empty\<close> (some axis has length 0).\<close>

definition empty_frame :: dataframe where
  "empty_frame = \<lparr>columns = [], rows = []\<rparr>"

definition df_empty :: "dataframe \<Rightarrow> bool" where
  "df_empty df = (columns df = [] \<or> rows df = [])"

text \<open>\<^verbatim>\<open>df.columns = df.columns.str.strip()\<close>\<close>

definition strip_columns :: "dataframe \<Rightarrow> dataframe" where
  "strip_columns df = df\<lparr>columns := map strip (columns df)\<rparr>"

text \<open>\<^verbatim>\<open>df[col]\<close> as the list of the column's cells, and \<^verbatim>\<open>row.get(key, default)\<close>.\<close>

definition row_get :: "string list \<Rightarrow> cell list \<Rightarrow> string \<Rightarrow> cell \<Rightarrow> cell" where
  "row_get cols row key dflt = (case map_of (zip cols row) key of Some v \<Rightarrow> v | None \<Rightarrow> dflt)"

definition column :: "dataframe \<Rightarrow> string \<Rightarrow> cell list" where
  "column df col = map (\<lambda>row. row_get (columns df) row col NaN) (rows df)"

section \<open>The environment and the files\<close>

text \<open>
  The library calls whose result the program depends on are parameters of the model:
  \<^item> \<open>read_excel\<close>: \<^verbatim>\<open>pd.read_excel\<close> on an export URL, a table or an exception (\<open>Inl\<close>
    carries \<^verbatim>\<open>str(e)\<close>);
  \<^item> \<open>checkpw\<close>: \<^verbatim>\<open>bcrypt.checkpw\<close> on a password and a stored string, \<open>None\<close> when it
    raises (a stored value that is no bcrypt hash);
  \<^item> \<open>hashpw\<close>: \<^verbatim>\<open>bcrypt.hashpw\<close> with a fresh salt;
  \<^item> \<open>regex_search\<close>: \<^verbatim>\<open>re.search\<close> ignoring case, for a pattern that has a regular
    expression metacharacter, \<open>None\<close> when the pattern does not compile;
  \<^item> \<open>parse_num\<close>: the parser of \<^verbatim>\<open>pd.to_numeric\<close> on a string;
  \<^item> \<open>parse_int\<close>: \<^verbatim>\<open>int\<close> on a string, \<open>None\<close> when it raises \<^verbatim>\<open>ValueError\<close>;
  \<^item> \<open>fmt_num\<close>: \<^verbatim>\<open>str\<close> on a number.
\<close>

record env =
  read_excel :: "string \<Rightarrow> string + dataframe"
  checkpw :: "string \<Rightarrow> string \<Rightarrow> bool option"
  hashpw :: "string \<Rightarrow> string"
  regex_search :: "string \<Rightarrow> string \<Rightarrow> bool option"
  parse_num :: "string \<Rightarrow> rat option"
  parse_int :: "string \<Rightarrow> int option"
  fmt_num :: "rat \<Rightarrow> string"

text \<open>\<^verbatim>\<open>str(value)\<close> on a cell.\<close>

fun py_str :: "env \<Rightarrow> cell \<Rightarrow> string" where
  "py_str e (Str s) = s"
| "py_str e (Num r) = fmt_num e r"
| "py_str e NaN = ''nan''"

text \<open>One entry of \<^verbatim>\<open>data/multi_sheets_config.json\<close>; a key that is missing is \<open>None\<close>.\<close>

record sheet_config =
  sheet_type :: "string option"
  url :: "string option"
  label :: "string option"
  configured_at :: "string option"

text \<open>
  What \<^verbatim>\<open>get_all_sheets_config\<close> returns is whatever JSON the file holds, and the default
  \<^verbatim>\<open>{"sheets": [], "version": "1.0"}\<close> when the file is missing or is no JSON. The code
  then calls \<^verbatim>\<open>config.get("sheets", [])\<close>, iterates the result and calls
  \<^verbatim>\<open>sheet.get("type")\<close> on every item up to the first match, so the shapes that matter
  are:
  \<^item> \<open>Sheets items\<close>: an object; \<open>items\<close> is what iterating its \<^verbatim>\<open>"sheets"\<close> yields, in
    order: an object is an \<open>Entry\<close>, anything else \<open>NotAnEntry\<close> (an item of a list that is
    no object, or one of the strings that iterating a string or an object yields); a missing
    key gives no item;
  \<^item> \<open>SheetsNotIterable\<close>: an object whose \<^verbatim>\<open>"sheets"\<close> is \<^verbatim>\<open>null\<close>, a number or a
    boolean;
  \<^item> \<open>NotAnObject\<close>: a list, a string, a number, a boolean or \<^verbatim>\<open>null\<close>.
  In an entry, a \<^verbatim>\<open>type\<close> that is no string equals no requested type, as a missing one
  does, and is \<open>None\<close>; a \<^verbatim>\<open>url\<close> is a string or missing.
\<close>

datatype registry_item = Entry sheet_config | NotAnEntry

datatype registry = Sheets "registry_item list" | SheetsNotIterable | NotAnObject

text \<open>
  A stored password is a string, or some other JSON value, of which only the truthiness
  matters. The keys read with \<^verbatim>\<open>.get\<close> may be missing.
\<close>

datatype pwval = PwStr string | PwOther bool

record user =
  password :: pwval
  full_name :: "string option"
  role :: string
  email :: "string option"
  department :: "string option"
  user_id :: int
  created :: "string option"

text \<open>
  A Python \<^verbatim>\<open>dict\<close> with string keys is an association list with distinct keys, in
  insertion order; \<^verbatim>\<open>d[k] = v\<close> is \<^const>\<open>AList.update\<close>, \<^verbatim>\<open>d.get(k)\<close> is
  \<^const>\<open>map_of\<close>, \<^verbatim>\<open>del d[k]\<close> is \<^const>\<open>AList.delete\<close>.
\<close>

type_synonym users = "(string \<times> user) list"

type_synonym client = "(string \<times> cell) list"

text \<open>The dictionary that \<^verbatim>\<open>authenticate_user\<close> returns and the session keeps.\<close>

record identity =
  ident_username :: string
  ident_role :: string
  ident_id :: int
  ident_email :: string
  ident_full_name :: string
  ident_department :: string

text \<open>A file of the local disk: missing, unreadable as what it should hold, or its content.\<close>

datatype 'a disk_file = Absent | Corrupt | Content 'a

record clients_file =
  file_clients :: "client list"
  last_sync :: string

text \<open>The dictionary that \<^verbatim>\<open>ClientDatabase.load_clients\<close> returns.\<close>

record client_data =
  clients :: "client list"
  next_id :: int
  sources :: "string list"

text \<open>
  The state the functions read and change:
  \<^item> \<open>sheets_config\<close>: what \<^verbatim>\<open>get_all_sheets_config\<close> returns for the configuration
    file, \<open>Sheets []\<close> when the file is missing or is no JSON;
  \<^item> \<open>requests\<close>: the URLs requested from the remote so far, oldest first;
  \<^item> \<open>users_json\<close>, \<open>clients_backup\<close>, \<open>properties_backup\<close>: \<^verbatim>\<open>users.json\<close>,
    \<^verbatim>\<open>data/clients_backup.json\<close>, \<^verbatim>\<open>data/properties_backup.xlsx\<close>;
  \<^item> \<open>activity_log\<close>: the lines of \<^verbatim>\<open>logs/activity.log\<close>;
  \<^item> \<open>disk_writable\<close>: whether opening a file for writing succeeds;
  \<^item> \<open>session_user\<close>: \<^verbatim>\<open>st.session_state.user\<close>;
  \<^item> \<open>now\<close>: the reading of \<^verbatim>\<open>datetime.now().isoformat()\<close>, one for the whole
    operation;
  \<^item> \<open>clock\<close>: the time in seconds, by which memoised results expire;
  \<^item> \<open>clients_cache\<close>: the results that \<^verbatim>\<open>st.cache_data(ttl=300)\<close> keeps for
    \<^verbatim>\<open>ClientDatabase.load_clients\<close>, by its arguments \<^verbatim>\<open>(username, user_role)\<close>, each
    with the time it was stored.
  \<^verbatim>\<open>ClientDatabase.load_clients\<close> is modelled with its memoisation, because
  \<^verbatim>\<open>add_client\<close> reads through it the backup that it writes. The other functions that
  carry \<^verbatim>\<open>st.cache_data\<close> are modelled as they run when the memoisation does not answer the
  call.
\<close>

record world =
  sheets_config :: registry
  requests :: "string list"
  users_json :: "users disk_file"
  clients_backup :: "clients_file disk_file"
  properties_backup :: "dataframe disk_file"
  activity_log :: "string list"
  disk_writable :: bool
  session_user :: "identity option"
  now :: string
  clock :: nat
  clients_cache :: "((string option \<times> string option) \<times> client_data \<times> nat) list"

section \<open>MultiSheetManager\<close>

text \<open>
  \<^verbatim>\<open>get_sheet_by_type\<close>. The loop returns the first entry of the requested type; an item
  that is no object, reached before a match, has no \<^verbatim>\<open>get\<close> and raises
  \<^verbatim>\<open>AttributeError\<close>, as does a configuration that is no object; a \<^verbatim>\<open>"sheets"\<close> that
  cannot be iterated raises \<^verbatim>\<open>TypeError\<close>.
\<close>

fun find_sheet :: "registry_item list \<Rightarrow> string \<Rightarrow> error + sheet_config option" where
  "find_sheet [] t = Inr None"
| "find_sheet (NotAnEntry # sheets) t = Inl AttributeError"
| "find_sheet (Entry sheet # sheets) t =
     (if sheet_type sheet = Some t then Inr (Some sheet) else find_sheet sheets t)"

fun get_sheet_by_type :: "registry \<Rightarrow> string \<Rightarrow> error + sheet_config option" where
  "get_sheet_by_type NotAnObject t = Inl AttributeError"
| "get_sheet_by_type SheetsNotIterable t = Inl TypeError"
| "get_sheet_by_type (Sheets sheets) t = find_sheet sheets t"

text \<open>The character class \<^verbatim>\<open>[a-zA-Z0-9-_]\<close> of both patterns.\<close>

definition id_char :: "char \<Rightarrow> bool" where
  "id_char c = (let n = (of_char c :: nat)
                in (97 \<le> n \<and> n \<le> 122) \<or> (65 \<le> n \<and> n \<le> 90) \<or> (48 \<le> n \<and> n \<le> 57)
                   \<or> c = CHR ''-'' \<or> c = CHR ''_'')"

text \<open>
  \<^verbatim>\<open>re.search(lit + '([a-zA-Z0-9-_]+)', s)\<close> followed by \<^verbatim>\<open>match.group(1)\<close>: the leftmost
  position where the literal is followed by at least one class character, and the longest
  run of class characters there.
\<close>

definition match_here :: "string \<Rightarrow> string \<Rightarrow> string option" where
  "match_here lit s =
     (if take (length lit) s = lit
      then (let tok = takeWhile id_char (drop (length lit) s)
            in if tok = [] then None else Some tok)
      else None)"

fun re_search_id :: "string \<Rightarrow> string \<Rightarrow> string option" where
  "re_search_id lit [] = match_here lit []"
| "re_search_id lit (c # cs) =
     (case match_here lit (c # cs) of
        Some tok \<Rightarrow> Some tok
      | None \<Rightarrow> re_search_id lit cs)"

text \<open>The loop over the two patterns, which stops at the first that matches.\<close>

definition extract_sheet_id :: "string \<Rightarrow> string option" where
  "extract_sheet_id u =
     (case re_search_id ''/spreadsheets/d/'' u of
        Some sid \<Rightarrow> Some sid
      | None \<Rightarrow> re_search_id ''id='' u)"

definition import_url :: "string \<Rightarrow> string" where
  "import_url sid = ''https://docs.google.com/spreadsheets/d/'' @ sid @ ''/export?format=xlsx''"

text \<open>
  \<^verbatim>\<open>load_sheet_by_type\<close> returns the pair \<^verbatim>\<open>(df, message)\<close>, with \<open>None\<close> for the table
  on every failure it reports. The lookup of the configuration is outside the \<^verbatim>\<open>try\<close>,
  so what \<^verbatim>\<open>get_sheet_by_type\<close> raises reaches the caller (\<open>Inl\<close>); everything after it
  is inside, so an exception of \<^verbatim>\<open>pd.read_excel\<close> becomes the \<^verbatim>\<open>Error:\<close> message.
\<close>

definition load_sheet_by_type ::
  "env \<Rightarrow> world \<Rightarrow> string \<Rightarrow> (error + dataframe option \<times> string) \<times> world" where
  "load_sheet_by_type e w t =
     (case get_sheet_by_type (sheets_config w) t of
        Inl x \<Rightarrow> (Inl x, w)
      | Inr None \<Rightarrow>
          (Inr (None, ''Sheet type '' @ [CHR 0x27] @ t @ [CHR 0x27] @ '' not configured''), w)
      | Inr (Some sc) \<Rightarrow>
          (case url sc of
             None \<Rightarrow> (Inr (None, ''URL not configured''), w)
           | Some u \<Rightarrow>
               if u = [] then (Inr (None, ''URL not configured''), w)
               else (case extract_sheet_id u of
                       None \<Rightarrow> (Inr (None, ''Invalid URL format''), w)
                     | Some sid \<Rightarrow>
                         (let w' = w\<lparr>requests := requests w @ [import_url sid]\<rparr>
                          in case read_excel e (import_url sid) of
                               Inl msg \<Rightarrow> (Inr (None, ''Error: '' @ msg), w')
                             | Inr df \<Rightarrow>
                                 if df_empty df then (Inr (None, ''Sheet is empty''), w')
                                 else (Inr (Some df, ''Successfully loaded''), w')))))"

section \<open>Sheet handlers\<close>

subsection \<open>Column mapping\<close>

text \<open>\<^verbatim>\<open>df.rename(columns={old: new}, inplace=True)\<close> on the labels.\<close>

definition rename_column :: "string \<Rightarrow> string \<Rightarrow> string list \<Rightarrow> string list" where
  "rename_column old new cols = map (\<lambda>c. if c = old then new else c) cols"

text \<open>
  The inner loop over \<^verbatim>\<open>possible_names\<close> for one \<^verbatim>\<open>standard_col\<close>, and the outer loop
  over the items of \<^verbatim>\<open>column_mapping\<close> in the order they are written.
\<close>

fun map_aliases :: "string \<Rightarrow> string list \<Rightarrow> string list \<Rightarrow> string list" where
  "map_aliases standard_col [] cols = cols"
| "map_aliases standard_col (possible # possible_names) cols =
     map_aliases standard_col possible_names
       (if possible \<in> set cols \<and> standard_col \<notin> set cols
        then rename_column possible standard_col cols else cols)"

fun apply_column_mapping :: "(string \<times> string list) list \<Rightarrow> string list \<Rightarrow> string list" where
  "apply_column_mapping [] cols = cols"
| "apply_column_mapping ((standard_col, possible_names) # rest) cols =
     apply_column_mapping rest (map_aliases standard_col possible_names cols)"

definition properties_mapping :: "(string \<times> string list) list" where
  "properties_mapping =
     [(''unit_id'', [''unit_id'', ''id'', ''property_id'']),
      (''unit_type'', [''unit_type'', ''property_type'', ''type'']),
      (''listing_type'', [''listing_type'', ''sale_rent'', ''transaction_type'']),
      (''area'', [''area'', ''region'', ''location'', ''city'']),
      (''address'', [''address'', ''main_address'', ''street_address'']),
      (''price_total'', [''price_total'', ''price'', ''total_price'', ''value'']),
      (''area_sqm'', [''area_sqm'', ''area_m2'', ''size'', ''square_meters'']),
      (''rooms'', [''rooms'', ''bedrooms'', ''number_of_rooms'']),
      (''bathrooms'', [''bathrooms'', ''washrooms'', ''number_of_bathrooms'']),
      (''floor_number'', [''floor_number'', ''floor'', ''level'']),
      (''status'', [''status'', ''unit_status'', ''availability''])]"

definition clients_mapping :: "(string \<times> string list) list" where
  "clients_mapping =
     [(''client_id'', [''client_id'', ''id'']),
      (''name'', [''name'', ''client_name'', ''full_name'']),
      (''phone'', [''phone'', ''phone_number'', ''mobile'']),
      (''assigned_to'', [''assigned_to'', ''agent'', ''sales_agent'']),
      (''status'', [''status'', ''client_status'']),
      (''source'', [''source'', ''lead_source'']),
      (''budget'', [''budget'', ''budget_range'', ''price_range''])]"

subsection \<open>PropertiesSheetHandler\<close>

text \<open>\<^verbatim>\<open>pd.to_numeric(..., errors='coerce')\<close> on one cell, and on the column of a table.\<close>

fun to_numeric :: "env \<Rightarrow> cell \<Rightarrow> cell" where
  "to_numeric e (Str s) = (case parse_num e s of Some r \<Rightarrow> Num r | None \<Rightarrow> NaN)"
| "to_numeric e (Num r) = Num r"
| "to_numeric e NaN = NaN"

definition coerce_column :: "env \<Rightarrow> string \<Rightarrow> dataframe \<Rightarrow> dataframe" where
  "coerce_column e col df =
     (if col \<in> set (columns df)
      then df\<lparr>rows := map (\<lambda>row. map (\<lambda>(c, v). if c = col then to_numeric e v else v)
                                     (zip (columns df) row)) (rows df)\<rparr>
      else df)"

definition numeric_cols :: "string list" where
  "numeric_cols = [''price_total'', ''area_sqm'', ''rooms'', ''bathrooms'', ''floor_number'']"

text \<open>
  What \<^verbatim>\<open>load_properties\<close> does with the table it fetched: trim the labels, apply the
  column mapping, coerce the numeric columns.
\<close>

definition normalize_properties :: "env \<Rightarrow> dataframe \<Rightarrow> dataframe" where
  "normalize_properties e df0 =
     (let df1 = strip_columns df0;
          df2 = df1\<lparr>columns := apply_column_mapping properties_mapping (columns df1)\<rparr>
      in fold (coerce_column e) numeric_cols df2)"

definition PropertiesSheetHandler_load_properties ::
  "env \<Rightarrow> world \<Rightarrow> (error + dataframe) \<times> world" where
  "PropertiesSheetHandler_load_properties e w =
     (case load_sheet_by_type e w ''properties'' of
        (Inl x, w') \<Rightarrow> (Inl x, w')
      | (Inr (None, message), w') \<Rightarrow> (Inr empty_frame, w')
      | (Inr (Some df0, message), w') \<Rightarrow> (Inr (normalize_properties e df0), w'))"

subsection \<open>ClientsSheetHandler\<close>

text \<open>
  \<^verbatim>\<open>Series.str.contains(pat, case=False, na=False)\<close> on one value. The pattern is a regular
  expression: one without metacharacters matches where it occurs in the value, ignoring
  case; any other pattern is left to \<open>regex_search\<close>.
\<close>

definition metachars :: "char list" where
  "metachars = ''.^$*+?{}[]|()'' @ [CHR 0x5C]"

definition literal_pattern :: "string \<Rightarrow> bool" where
  "literal_pattern pat = list_all (\<lambda>c. c \<notin> set metachars) pat"

definition str_contains :: "env \<Rightarrow> string \<Rightarrow> string \<Rightarrow> error + bool" where
  "str_contains e pat s =
     (if literal_pattern pat then Inr (contains (lower pat) (lower s))
      else (case regex_search e pat s of None \<Rightarrow> Inl RegexError | Some b \<Rightarrow> Inr b))"

text \<open>\<^verbatim>\<open>df[mask]\<close>, where computing the mask may raise.\<close>

fun filter_rows :: "(cell list \<Rightarrow> error + bool) \<Rightarrow> cell list list \<Rightarrow> error + cell list list" where
  "filter_rows p [] = Inr []"
| "filter_rows p (row # rest) =
     (case p row of
        Inl x \<Rightarrow> Inl x
      | Inr b \<Rightarrow> (case filter_rows p rest of
                    Inl x \<Rightarrow> Inl x
                  | Inr kept \<Rightarrow> Inr (if b then row # kept else kept)))"

text \<open>\<^verbatim>\<open>df.to_dict('records') if not df.empty else []\<close>\<close>

definition to_record :: "string list \<Rightarrow> cell list \<Rightarrow> client" where
  "to_record cols row = fold (\<lambda>(k, v). AList.update k v) (zip cols row) []"

definition to_dict_records :: "dataframe \<Rightarrow> client list" where
  "to_dict_records df = (if df_empty df then [] else map (to_record (columns df)) (rows df))"

text \<open>
  What \<^verbatim>\<open>load_clients\<close> does with the table it fetched: trim the labels, apply the column
  mapping, filter the rows for the role \<^verbatim>\<open>sales\<close>, return the records.
\<close>

definition clients_of_sheet ::
  "env \<Rightarrow> dataframe \<Rightarrow> string option \<Rightarrow> string option \<Rightarrow> error + client list" where
  "clients_of_sheet e df0 username role' =
     (let df1 = strip_columns df0;
          df = df1\<lparr>columns := apply_column_mapping clients_mapping (columns df1)\<rparr>
      in case username of
           Some name \<Rightarrow>
             if name \<noteq> [] \<and> role' = Some ''sales'' \<and> ''assigned_to'' \<in> set (columns df)
             then (case filter_rows
                          (\<lambda>row. str_contains e name
                                   (py_str e (row_get (columns df) row ''assigned_to'' NaN)))
                          (rows df) of
                     Inl x \<Rightarrow> Inl x
                   | Inr kept \<Rightarrow> Inr (to_dict_records (df\<lparr>rows := kept\<rparr>)))
             else Inr (to_dict_records df)
         | None \<Rightarrow> Inr (to_dict_records df))"

definition ClientsSheetHandler_load_clients ::
  "env \<Rightarrow> world \<Rightarrow> string option \<Rightarrow> string option \<Rightarrow> (error + client list) \<times> world" where
  "ClientsSheetHandler_load_clients e w username role' =
     (case load_sheet_by_type e w ''clients'' of
        (Inl x, w') \<Rightarrow> (Inl x, w')
      | (Inr (None, message), w') \<Rightarrow> (Inr [], w')
      | (Inr (Some df0, message), w') \<Rightarrow> (clients_of_sheet e df0 username role', w'))"

subsection \<open>UsersSheetHandler\<close>

text \<open>\<^verbatim>\<open>int(value)\<close> on a cell: a number is truncated towards zero.\<close>

fun py_int :: "env \<Rightarrow> cell \<Rightarrow> error + int" where
  "py_int e (Num r) = Inr (if 0 \<le> r then \<lfloor>r\<rfloor> else \<lceil>r\<rceil>)"
| "py_int e (Str s) = (case parse_int e s of Some n \<Rightarrow> Inr n | None \<Rightarrow> Inl ValueError)"
| "py_int e NaN = Inl ValueError"

text \<open>The dictionary built for one row; only the conversion of \<^verbatim>\<open>id\<close> can raise.\<close>

definition user_of_row :: "env \<Rightarrow> string list \<Rightarrow> cell list \<Rightarrow> string \<Rightarrow> error + user" where
  "user_of_row e cols row username =
     (let idc = row_get cols row ''id'' (Num 0)
      in case (if idc \<noteq> NaN then py_int e idc else Inr 0) of
           Inl x \<Rightarrow> Inl x
         | Inr n \<Rightarrow>
             Inr \<lparr>password = PwStr (py_str e (row_get cols row ''password'' (Str []))),
                  full_name = Some (py_str e (row_get cols row ''full_name'' (Str username))),
                  role = lower (py_str e (row_get cols row ''role'' (Str ''user''))),
                  email = Some (py_str e (row_get cols row ''email'' (Str []))),
                  department = Some (py_str e (row_get cols row ''department'' (Str ''General''))),
                  user_id = n,
                  created = None\<rparr>)"

text \<open>The loop over \<^verbatim>\<open>df.iterrows()\<close>, with the dictionary built so far.\<close>

fun users_of_rows :: "env \<Rightarrow> string list \<Rightarrow> cell list list \<Rightarrow> users \<Rightarrow> error + users" where
  "users_of_rows e cols [] users = Inr users"
| "users_of_rows e cols (row # rest) users =
     (let username = strip (py_str e (row_get cols row ''username'' (Str [])))
      in if username = [] then users_of_rows e cols rest users
         else (case user_of_row e cols row username of
                 Inl x \<Rightarrow> Inl x
               | Inr u \<Rightarrow> users_of_rows e cols rest (AList.update username u users)))"

text \<open>What \<^verbatim>\<open>load_users\<close> does with the table it fetched.\<close>

definition users_of_sheet :: "env \<Rightarrow> dataframe \<Rightarrow> error + users" where
  "users_of_sheet e df0 =
     (let df = strip_columns df0 in users_of_rows e (columns df) (rows df) [])"

definition UsersSheetHandler_load_users :: "env \<Rightarrow> world \<Rightarrow> (error + users) \<times> world" where
  "UsersSheetHandler_load_users e w =
     (case load_sheet_by_type e w ''users'' of
        (Inl x, w') \<Rightarrow> (Inl x, w')
      | (Inr (None, message), w') \<Rightarrow> (Inr [], w')
      | (Inr (Some df0, message), w') \<Rightarrow> (users_of_sheet e df0, w'))"

subsection \<open>ActivityLogsHandler and TransactionsHandler\<close>

text \<open>\<^verbatim>\<open>df.head(n)\<close>: the first \<open>n\<close> rows, or all but the last \<open>-n\<close> for a negative \<open>n\<close>.\<close>

definition head :: "int \<Rightarrow> dataframe \<Rightarrow> dataframe" where
  "head n df = df\<lparr>rows := (if 0 \<le> n then take (nat n) (rows df)
                            else take (length (rows df) - nat (- n)) (rows df))\<rparr>"

definition load_activity_logs ::
  "env \<Rightarrow> world \<Rightarrow> int \<Rightarrow> (error + dataframe) \<times> world" where
  "load_activity_logs e w limit =
     (case load_sheet_by_type e w ''activity'' of
        (Inl x, w') \<Rightarrow> (Inl x, w')
      | (Inr (None, message), w') \<Rightarrow> (Inr empty_frame, w')
      | (Inr (Some df0, message), w') \<Rightarrow>
          (let df = strip_columns df0
           in (Inr (if \<not> df_empty df then head limit df else empty_frame), w')))"

definition load_transactions :: "env \<Rightarrow> world \<Rightarrow> (error + dataframe) \<times> world" where
  "load_transactions e w =
     (case load_sheet_by_type e w ''transactions'' of
        (Inl x, w') \<Rightarrow> (Inl x, w')
      | (Inr (None, message), w') \<Rightarrow> (Inr empty_frame, w')
      | (Inr (Some df0, message), w') \<Rightarrow> (Inr (strip_columns df0), w'))"

section \<open>Authentication\<close>

text \<open>The six accounts that \<^verbatim>\<open>load_users\<close> creates when it has no others.\<close>

definition default_user ::
  "env \<Rightarrow> world \<Rightarrow> int \<Rightarrow> string \<Rightarrow> string \<Rightarrow> string \<Rightarrow> string \<Rightarrow> string \<Rightarrow> user" where
  "default_user e w n r pw mail name dept =
     \<lparr>password = PwStr (hashpw e pw), full_name = Some name, role = r, email = Some mail,
      department = Some dept, user_id = n, created = Some (now w)\<rparr>"

definition default_users :: "env \<Rightarrow> world \<Rightarrow> users" where
  "default_users e w =
     [(''admin'', default_user e w 1 ''owner'' ''admin123'' ''admin@realestate.com''
                    ''System Administrator'' ''Management''),
      (''manager'', default_user e w 2 ''manager'' ''manager123'' ''manager@realestate.com''
                    ''Operations Manager'' ''Management''),
      (''analyst'', default_user e w 3 ''data_analyst'' ''analyst123'' ''analyst@realestate.com''
                    ''Data Analyst'' ''Analytics''),
      (''sales1'', default_user e w 4 ''sales'' ''sales123'' ''john.smith@realestate.com''
                    ''John Smith'' ''Sales''),
      (''sales2'', default_user e w 5 ''sales'' ''sales123'' ''sarah.jones@realestate.com''
                    ''Sarah Jones'' ''Sales''),
      (''data_entry'', default_user e w 6 ''data_entry'' ''data123'' ''data@realestate.com''
                    ''Data Specialist'' ''Operations'')]"

text \<open>The end of \<^verbatim>\<open>load_users\<close>: build the default accounts, try to write them, return them.\<close>

definition create_default_users :: "env \<Rightarrow> world \<Rightarrow> users \<times> world" where
  "create_default_users e w =
     (default_users e w,
      if disk_writable w then w\<lparr>users_json := Content (default_users e w)\<rparr> else w)"

text \<open>
  \<^verbatim>\<open>load_users\<close>: the sheet first, then \<^verbatim>\<open>users.json\<close>; any exception inside the
  \<^verbatim>\<open>try\<close> (the sheet handler raising, the backup not writable, the file unreadable)
  leads to the default accounts.
\<close>

definition load_users :: "env \<Rightarrow> world \<Rightarrow> users \<times> world" where
  "load_users e w =
     (case UsersSheetHandler_load_users e w of
        (Inl x, w1) \<Rightarrow> create_default_users e w1
      | (Inr sheet_users, w1) \<Rightarrow>
          if sheet_users \<noteq> []
          then (if disk_writable w1 then (sheet_users, w1\<lparr>users_json := Content sheet_users\<rparr>)
                else create_default_users e w1)
          else (case users_json w1 of
                  Content users \<Rightarrow> (users, w1)
                | Corrupt \<Rightarrow> create_default_users e w1
                | Absent \<Rightarrow> create_default_users e w1))"

definition make_identity :: "string \<Rightarrow> user \<Rightarrow> identity" where
  "make_identity username u =
     \<lparr>ident_username = username, ident_role = role u, ident_id = user_id u,
      ident_email = (case email u of Some m \<Rightarrow> m | None \<Rightarrow> []),
      ident_full_name = (case full_name u of Some n \<Rightarrow> n | None \<Rightarrow> username),
      ident_department = (case department u of Some d \<Rightarrow> d | None \<Rightarrow> [])\<rparr>"

text \<open>
  \<^verbatim>\<open>authenticate_user\<close>. A stored string is encoded and checked; a check that returns
  false falls through to \<^verbatim>\<open>return None\<close>; a check that raises reaches the \<^verbatim>\<open>except\<close>
  branch, whose condition parses as
  \<^verbatim>\<open>(password == stored.decode()) if isinstance(stored, bytes) else stored\<close>. A stored
  value that is no string is not encoded, makes \<^verbatim>\<open>bcrypt.checkpw\<close> raise, and is then
  itself the condition.
\<close>

definition authenticate_user ::
  "env \<Rightarrow> world \<Rightarrow> string option \<Rightarrow> string option \<Rightarrow> identity option \<times> world" where
  "authenticate_user e w username pw =
     (if \<not> truthy username \<or> \<not> truthy pw then (None, w)
      else (case (username, pw) of
              (Some name, Some pass) \<Rightarrow>
                (case load_users e w of
                   (users, w') \<Rightarrow>
                     (case map_of users name of
                        None \<Rightarrow> (None, w')
                      | Some u \<Rightarrow>
                          (case password u of
                             PwStr stored \<Rightarrow>
                               (case checkpw e pass stored of
                                  Some True \<Rightarrow> (Some (make_identity name u), w')
                                | Some False \<Rightarrow> (None, w')
                                | None \<Rightarrow>
                                    if pass = stored then (Some (make_identity name u), w')
                                    else (None, w'))
                           | PwOther b \<Rightarrow>
                               if b then (Some (make_identity name u), w') else (None, w'))))
            | _ \<Rightarrow> (None, w)))"

text \<open>\<^verbatim>\<open>log_activity\<close> appends one line and swallows every failure.\<close>

definition log_activity :: "world \<Rightarrow> string \<Rightarrow> string \<Rightarrow> string \<Rightarrow> world" where
  "log_activity w username action details =
     (if disk_writable w
      then w\<lparr>activity_log := activity_log w
                @ [now w @ ''|'' @ username @ ''|'' @ action @ ''|'' @ details]\<rparr>
      else w)"

section \<open>ClientDatabase\<close>

definition client_sources :: "string list" where
  "client_sources =
     [''Website'', ''Referral'', ''Walk-in'', ''Social Media'', ''Advertisement'', ''Direct'']"

text \<open>
  \<^verbatim>\<open>_load_local_backup\<close>: a missing or unreadable file gives the empty result; for the role
  \<^verbatim>\<open>sales\<close> it keeps the records with \<^verbatim>\<open>c.get('assigned_to') == username\<close>.
\<close>

definition ClientDatabase_load_local_backup ::
  "world \<Rightarrow> string option \<Rightarrow> string option \<Rightarrow> client_data" where
  "ClientDatabase_load_local_backup w username user_role =
     (case clients_backup w of
        Content data \<Rightarrow>
          (let cs = (if user_role = Some ''sales''
                     then filter (\<lambda>c. map_of c ''assigned_to'' = map_option Str username)
                                 (file_clients data)
                     else file_clients data)
           in \<lparr>clients = cs, next_id = int (length cs) + 1, sources = client_sources\<rparr>)
      | Corrupt \<Rightarrow> \<lparr>clients = [], next_id = 1, sources = []\<rparr>
      | Absent \<Rightarrow> \<lparr>clients = [], next_id = 1, sources = []\<rparr>)"

text \<open>
  The body of \<^verbatim>\<open>ClientDatabase.load_clients\<close>: records of the sheet are written to the
  backup (a failed write is ignored) and returned; with none, the backup is read. An
  exception of the sheet handler is not caught here.
\<close>

definition load_clients_body ::
  "env \<Rightarrow> world \<Rightarrow> string option \<Rightarrow> string option \<Rightarrow> (error + client_data) \<times> world" where
  "load_clients_body e w username user_role =
     (case ClientsSheetHandler_load_clients e w username user_role of
        (Inl x, w') \<Rightarrow> (Inl x, w')
      | (Inr cs, w') \<Rightarrow>
          if cs \<noteq> []
          then (Inr \<lparr>clients = cs, next_id = int (length cs) + 1, sources = client_sources\<rparr>,
                if disk_writable w'
                then w'\<lparr>clients_backup := Content \<lparr>file_clients = cs, last_sync = now w'\<rparr>\<rparr>
                else w')
          else (Inr (ClientDatabase_load_local_backup w' username user_role), w'))"

text \<open>
  \<^verbatim>\<open>st.cache_data(ttl=300)\<close> on \<^verbatim>\<open>ClientDatabase.load_clients\<close>. The key is the pair of
  arguments (\<^verbatim>\<open>_self\<close> is left out of it). A result stored less than 300 seconds ago
  is returned, as a copy, without running the body; otherwise the body runs and what it
  returns is stored. An exception is not stored. Nothing in \<^verbatim>\<open>ClientDatabase\<close> clears
  the cache.
\<close>

definition cache_get ::
  "('k \<times> 'v \<times> nat) list \<Rightarrow> nat \<Rightarrow> nat \<Rightarrow> 'k \<Rightarrow> 'v option" where
  "cache_get cache ttl t key =
     (case map_of cache key of
        None \<Rightarrow> None
      | Some (v, stored) \<Rightarrow> if t < stored + ttl then Some v else None)"

definition ClientDatabase_load_clients ::
  "env \<Rightarrow> world \<Rightarrow> string option \<Rightarrow> string option \<Rightarrow> (error + client_data) \<times> world" where
  "ClientDatabase_load_clients e w username user_role =
     (case cache_get (clients_cache w) 300 (clock w) (username, user_role) of
        Some data \<Rightarrow> (Inr data, w)
      | None \<Rightarrow>
          (case load_clients_body e w username user_role of
             (Inl x, w') \<Rightarrow> (Inl x, w')
           | (Inr data, w') \<Rightarrow>
               (Inr data,
                w'\<lparr>clients_cache :=
                      AList.update (username, user_role) (data, clock w') (clients_cache w')\<rparr>)))"

text \<open>\<^verbatim>\<open>str(d.get(key))\<close>, which is \<^verbatim>\<open>'None'\<close> for a missing key.\<close>

definition str_of_get :: "env \<Rightarrow> client \<Rightarrow> string \<Rightarrow> string" where
  "str_of_get e d key = (case map_of d key of None \<Rightarrow> ''None'' | Some v \<Rightarrow> py_str e v)"

text \<open>
  \<^verbatim>\<open>add_client\<close> returns the new \<^verbatim>\<open>client_id\<close>, or \<open>None\<close> when anything inside its
  \<^verbatim>\<open>try\<close> raised; the model also returns \<^verbatim>\<open>client_data\<close> as the call leaves it, since
  the dictionary is changed in place. The role is read from the session only when the
  payload has no truthy \<^verbatim>\<open>assigned_to\<close>, and reading it without a session user raises.
\<close>

definition add_client ::
  "env \<Rightarrow> world \<Rightarrow> client \<Rightarrow> string \<Rightarrow> (int option \<times> client) \<times> world" where
  "add_client e w client_data username =
     (case ClientDatabase_load_clients e w (Some ''system'') (Some ''owner'') of
        (Inl x, w1) \<Rightarrow> ((None, client_data), w1)
      | (Inr existing_data, w1) \<Rightarrow>
          (let unassigned = (case map_of client_data ''assigned_to'' of
                               None \<Rightarrow> True | Some v \<Rightarrow> \<not> cell_truthy v)
           in case (if unassigned then map_option ident_role (session_user w1) else Some []) of
                None \<Rightarrow> ((None, client_data), w1)
              | Some acting_role \<Rightarrow>
                  (let d1 = (if unassigned \<and> acting_role = ''sales''
                             then AList.update ''assigned_to'' (Str username) client_data
                             else client_data);
                       d2 = AList.update ''client_id'' (Num (of_int (next_id existing_data))) d1;
                       d3 = AList.update ''created_at'' (Str (now w1)) d2;
                       d4 = AList.update ''last_contact'' (Str (now w1)) d3;
                       d5 = AList.update ''conversion_stage'' (Str ''Lead'') d4;
                       all_clients = clients existing_data @ [d5];
                       w2 = log_activity w1 username ''add_client''
                              (''Client: '' @ str_of_get e d5 ''name'' @ '', Value: ''
                               @ py_str e (case map_of d5 ''value'' of
                                             None \<Rightarrow> Num 0 | Some v \<Rightarrow> v));
                       w3 = (if disk_writable w2
                             then w2\<lparr>clients_backup :=
                                       Content \<lparr>file_clients = all_clients, last_sync = now w2\<rparr>\<rparr>
                             else w2)
                   in ((Some (next_id existing_data), d5), w3))))"

section \<open>PropertyDatabase\<close>

definition PropertyDatabase_load_local_backup :: "world \<Rightarrow> dataframe" where
  "PropertyDatabase_load_local_backup w =
     (case properties_backup w of
        Content df \<Rightarrow> df
      | Corrupt \<Rightarrow> empty_frame
      | Absent \<Rightarrow> empty_frame)"

definition PropertyDatabase_load_properties ::
  "env \<Rightarrow> world \<Rightarrow> (error + dataframe) \<times> world" where
  "PropertyDatabase_load_properties e w =
     (case PropertiesSheetHandler_load_properties e w of
        (Inl x, w') \<Rightarrow> (Inl x, w')
      | (Inr df, w') \<Rightarrow>
          if \<not> df_empty df
          then (Inr df, if disk_writable w' then w'\<lparr>properties_backup := Content df\<rparr> else w')
          else (Inr (PropertyDatabase_load_local_backup w'), w'))"

text \<open>The loops that pick the first of a list of labels that the table has.\<close>

fun first_present :: "string list \<Rightarrow> string list \<Rightarrow> string option" where
  "first_present [] cols = None"
| "first_present (col # rest) cols = (if col \<in> set cols then Some col else first_present rest cols)"

text \<open>
  \<^verbatim>\<open>Series.sum()\<close> and \<^verbatim>\<open>Series.mean()\<close> skip \<^verbatim>\<open>NaN\<close>; the sum of no numbers is 0 and
  their mean is \<^verbatim>\<open>NaN\<close> (\<open>None\<close> here). On a column that holds a string the two calls
  do not both return: the model raises \<^verbatim>\<open>TypeError\<close> for it.
\<close>

fun nansum :: "cell list \<Rightarrow> rat" where
  "nansum [] = 0"
| "nansum (Num r # cs) = r + nansum cs"
| "nansum (Str s # cs) = nansum cs"
| "nansum (NaN # cs) = nansum cs"

fun count_numbers :: "cell list \<Rightarrow> nat" where
  "count_numbers [] = 0"
| "count_numbers (Num r # cs) = Suc (count_numbers cs)"
| "count_numbers (Str s # cs) = count_numbers cs"
| "count_numbers (NaN # cs) = count_numbers cs"

definition nanmean :: "cell list \<Rightarrow> rat option" where
  "nanmean cs = (if count_numbers cs = 0 then None
                 else Some (nansum cs / of_nat (count_numbers cs)))"

fun is_str :: "cell \<Rightarrow> bool" where
  "is_str (Str s) = True"
| "is_str (Num r) = False"
| "is_str NaN = False"

record metrics =
  total_units :: nat
  available_units :: nat
  sold_units :: nat
  total_value :: rat
  avg_price :: "rat option"

text \<open>
  The computation of \<^verbatim>\<open>get_inventory_metrics\<close> on the table that \<^verbatim>\<open>load_properties\<close>
  returned. The pattern \<^verbatim>\<open>'sold|rented'\<close> is the alternation of two literals.
\<close>

definition inventory_metrics_of :: "env \<Rightarrow> dataframe \<Rightarrow> error + metrics" where
  "inventory_metrics_of e df =
     (if df_empty df
      then Inr \<lparr>total_units = 0, available_units = 0, sold_units = 0,
                total_value = 0, avg_price = Some 0\<rparr>
      else
        (let n = length (rows df);
             statuses = (case first_present [''status'', ''unit_status'', ''availability'']
                                            (columns df) of
                           None \<Rightarrow> None
                         | Some c \<Rightarrow> Some (map (\<lambda>v. lower (py_str e v)) (column df c)));
             available = (case statuses of
                            None \<Rightarrow> n
                          | Some ss \<Rightarrow> length (filter (contains ''available'') ss));
             sold = (case statuses of
                       None \<Rightarrow> 0
                     | Some ss \<Rightarrow> length (filter (\<lambda>s. contains ''sold'' s \<or> contains ''rented'' s) ss))
         in case first_present [''price_total'', ''price'', ''value''] (columns df) of
              None \<Rightarrow> Inr \<lparr>total_units = n, available_units = available, sold_units = sold,
                           total_value = 0, avg_price = Some 0\<rparr>
            | Some c \<Rightarrow>
                if list_ex is_str (column df c) then Inl TypeError
                else Inr \<lparr>total_units = n, available_units = available, sold_units = sold,
                          total_value = nansum (column df c),
                          avg_price = nanmean (column df c)\<rparr>))"

definition get_inventory_metrics :: "env \<Rightarrow> world \<Rightarrow> (error + metrics) \<times> world" where
  "get_inventory_metrics e w =
     (case PropertyDatabase_load_properties e w of
        (Inl x, w') \<Rightarrow> (Inl x, w')
      | (Inr df, w') \<Rightarrow> (inventory_metrics_of e df, w'))"

section \<open>ManagerControlPanel\<close>

text \<open>What the page shows after an action: \<^verbatim>\<open>st.success\<close>, \<^verbatim>\<open>st.warning\<close>, \<^verbatim>\<open>st.error\<close>, or nothing.\<close>

datatype notice = Success string | Warning string | Failure error | Silent

text \<open>
  \<^verbatim>\<open>_remove_user\<close> on the panel's dictionary \<^verbatim>\<open>self.users\<close>: the entry is deleted in
  memory first, then the file is written and the removal logged; an exception on the way
  is reported with \<^verbatim>\<open>st.error\<close> and leaves what was done before it.
\<close>

definition remove_user :: "world \<Rightarrow> users \<Rightarrow> string \<Rightarrow> (notice \<times> users) \<times> world" where
  "remove_user w users username =
     (if map_of users username \<noteq> None
      then (let users' = AList.delete username users
            in if \<not> disk_writable w then ((Failure OSError, users'), w)
               else (let w1 = w\<lparr>users_json := Content users'\<rparr>
                     in case session_user w1 of
                          None \<Rightarrow> ((Failure TypeError, users'), w1)
                        | Some me \<Rightarrow>
                            ((Success (''User '' @ username @ '' removed successfully''), users'),
                             log_activity w1 (ident_username me) ''remove_user''
                               (''Removed: '' @ username))))
      else ((Silent, users), w))"

text \<open>
  The branch of \<^verbatim>\<open>_render_staff_table\<close> that runs when the button \<^verbatim>\<open>Remove Employee\<close> is
  pressed with \<^verbatim>\<open>delete_user\<close> selected. It is the only caller of \<^verbatim>\<open>_remove_user\<close>.
  Reading the session's username without a session user raises.
\<close>

definition cannot_remove :: string where
  "cannot_remove = ''Cannot remove your own account or system administrator''"

definition render_staff_table_remove ::
  "world \<Rightarrow> users \<Rightarrow> string option \<Rightarrow> error + ((notice \<times> users) \<times> world)" where
  "render_staff_table_remove w users delete_user =
     (case delete_user of
        None \<Rightarrow> Inr ((Warning cannot_remove, users), w)
      | Some target \<Rightarrow>
          if target = [] then Inr ((Warning cannot_remove, users), w)
          else (case session_user w of
                  None \<Rightarrow> Inl TypeError
                | Some me \<Rightarrow>
                    if target \<noteq> ident_username me then Inr (remove_user w users target)
                    else Inr ((Warning cannot_remove, users), w)))"

section \<open>Concrete inputs\<close>

text \<open>
  An environment where the remote is unreachable, no stored value is a bcrypt hash
  (\<^verbatim>\<open>bcrypt.checkpw\<close> raises) and no string parses as a number.
\<close>

definition offline_env :: env where
  "offline_env =
     \<lparr>read_excel = (\<lambda>u. Inl ''unreachable''), checkpw = (\<lambda>p h. None),
      hashpw = (\<lambda>p. ''$2b$12$'' @ p), regex_search = (\<lambda>p s. None),
      parse_num = (\<lambda>s. None), parse_int = (\<lambda>s. None), fmt_num = (\<lambda>r. ''0'')\<rparr>"

text \<open>A fresh installation: nothing configured, no file, nobody logged in.\<close>

definition fresh_world :: world where
  "fresh_world =
     \<lparr>sheets_config = Sheets [], requests = [], users_json = Absent, clients_backup = Absent,
      properties_backup = Absent, activity_log = [], disk_writable = True,
      session_user = None, now = ''2024-01-01T00:00:00'', clock = 1000, clients_cache = []\<rparr>"

text \<open>An account whose stored password is the empty string, and a world whose store holds it.\<close>

definition bob :: user where
  "bob = \<lparr>password = PwStr [], full_name = Some ''Bob'', role = ''sales'', email = None,
          department = None, user_id = 7, created = None\<rparr>"

definition bob_world :: world where
  "bob_world = fresh_world\<lparr>users_json := Content [(''bob'', bob)]\<rparr>"

definition as_identity :: "string \<Rightarrow> string \<Rightarrow> identity" where
  "as_identity name r =
     \<lparr>ident_username = name, ident_role = r, ident_id = 7, ident_email = [],
      ident_full_name = name, ident_department = []\<rparr>"

section \<open>Conditions as the specification words them\<close>

text \<open>
  The accepted shapes of a location: the string contains the literal followed by an
  identifier, a nonempty token of letters, digits, hyphens and underscores.
\<close>

definition url_shape :: "string \<Rightarrow> string \<Rightarrow> string \<Rightarrow> bool" where
  "url_shape lit u sid =
     (sid \<noteq> [] \<and> list_all id_char sid \<and> (\<exists>pre post. u = pre @ lit @ sid @ post))"

text \<open>
  The condition under which the specification has a user authenticated: the name is in
  the store and the hash check succeeds, or it raises and the password equals the stored
  value.
\<close>

definition spec_accepts :: "env \<Rightarrow> users \<Rightarrow> string \<Rightarrow> string \<Rightarrow> bool" where
  "spec_accepts e users name pass =
     (case map_of users name of
        None \<Rightarrow> False
      | Some u \<Rightarrow>
          (case password u of
             PwStr stored \<Rightarrow>
               checkpw e pass stored = Some True \<or> (checkpw e pass stored = None \<and> pass = stored)
           | PwOther b \<Rightarrow> False))"

text \<open>An account whose stored password is a plain string, as a legacy or demo entry has it.\<close>

definition legacy_world :: world where
  "legacy_world = fresh_world\<lparr>users_json := Content [(''bob'', bob\<lparr>password := PwStr ''secret''\<rparr>)]\<rparr>"

text \<open>A world where one sheet is configured, and one where user \<open>name\<close> is logged in.\<close>

definition configured :: "string \<Rightarrow> string \<Rightarrow> world" where
  "configured t u =
     fresh_world\<lparr>sheets_config :=
                    Sheets [Entry \<lparr>sheet_type = Some t, url = Some u, label = None,
                                   configured_at = None\<rparr>]\<rparr>"

definition logged_in :: "string \<Rightarrow> string \<Rightarrow> world \<Rightarrow> world" where
  "logged_in name r w = w\<lparr>session_user := Some (as_identity name r)\<rparr>"

text \<open>The payload has no truthy \<^verbatim>\<open>assigned_to\<close>: the key is missing or its value is false.\<close>

definition unassigned :: "client \<Rightarrow> bool" where
  "unassigned d = (case map_of d ''assigned_to'' of None \<Rightarrow> True | Some v \<Rightarrow> \<not> cell_truthy v)"

text \<open>
  Every record the client handler has, before any filter: the records of the remote table
  when the fetch succeeds, those of the backup file otherwise.
\<close>

definition all_client_records :: "env \<Rightarrow> world \<Rightarrow> client list" where
  "all_client_records e w =
     (case fst (load_sheet_by_type e w ''clients'') of
        Inr (Some df0, message) \<Rightarrow>
          map (to_record (apply_column_mapping clients_mapping (map strip (columns df0))))
              (rows df0)
      | Inr (None, message) \<Rightarrow>
          (case clients_backup w of Content data \<Rightarrow> file_clients data
                                  | Corrupt \<Rightarrow> [] | Absent \<Rightarrow> [])
      | Inl x \<Rightarrow> [])"

text \<open>
  A salesperson at work: two clients in the backup file, no sheet configured, and
  \<^verbatim>\<open>agent007\<close> logged in with the role \<^verbatim>\<open>sales\<close>.
\<close>

definition two_clients :: "client list" where
  "two_clients = [[(''name'', Str ''Ann'')], [(''name'', Str ''Ben'')]]"

definition sales_world :: world where
  "sales_world =
     logged_in ''agent007'' ''sales''
       (fresh_world\<lparr>clients_backup :=
                      Content \<lparr>file_clients = two_clients, last_sync = ''2023-12-31T00:00:00''\<rparr>\<rparr>)"

text \<open>An environment where the remote serves the table \<open>df\<close> at every address.\<close>

definition serving :: "dataframe \<Rightarrow> env" where
  "serving df = offline_env\<lparr>read_excel := (\<lambda>u. Inr df)\<rparr>"

definition sheet_url :: string where
  "sheet_url = ''https://docs.google.com/spreadsheets/d/1AbC-d_9/edit''"

text \<open>The three leads of the specification's example, as a remote table and as records.\<close>

definition leads_table :: dataframe where
  "leads_table =
     \<lparr>columns = [''name'', ''assigned_to''],
      rows = [[Str ''Ann'', Str ''Alice''], [Str ''Ben'', Str ''alice.smith''],
              [Str ''Cid'', Str ''Bob'']]\<rparr>"

definition leads :: "client list" where
  "leads =
     [[(''name'', Str ''Ann''), (''assigned_to'', Str ''Alice'')],
      [(''name'', Str ''Ben''), (''assigned_to'', Str ''alice.smith'')],
      [(''name'', Str ''Cid''), (''assigned_to'', Str ''Bob'')]]"

definition leads_backup_world :: world where
  "leads_backup_world =
     fresh_world\<lparr>clients_backup :=
                    Content \<lparr>file_clients = leads, last_sync = ''2023-12-31T00:00:00''\<rparr>\<rparr>"

text \<open>
  The remote fetch fails: \<^verbatim>\<open>load_sheet_by_type\<close> returns no table, whatever its message
  (the type not configured, no URL, a URL of no accepted shape, \<^verbatim>\<open>pd.read_excel\<close> raising,
  an empty sheet). A configuration file of another shape than an object with a list of
  entries is not among these: there \<^verbatim>\<open>load_sheet_by_type\<close> raises.
\<close>

definition fetch_fails :: "env \<Rightarrow> world \<Rightarrow> string \<Rightarrow> bool" where
  "fetch_fails e w t =
     (case fst (load_sheet_by_type e w t) of
        Inr (None, message) \<Rightarrow> True
      | Inr (Some df, message) \<Rightarrow> False
      | Inl x \<Rightarrow> False)"

text \<open>The result of \<^verbatim>\<open>get_inventory_metrics\<close> for no data.\<close>

definition zero_metrics :: metrics where
  "zero_metrics = \<lparr>total_units = 0, available_units = 0, sold_units = 0, total_value = 0,
                    avg_price = Some 0\<rparr>"

text \<open>Two payloads, the record that \<^verbatim>\<open>add_client\<close> makes of one, and the passing of time.\<close>

definition jane :: client where
  "jane = [(''name'', Str ''Jane Doe'')]"

definition john :: client where
  "john = [(''name'', Str ''John Roe'')]"

definition as_third_lead :: "client \<Rightarrow> client" where
  "as_third_lead d =
     d @ [(''assigned_to'', Str ''agent007''), (''client_id'', Num 3),
          (''created_at'', Str ''2024-01-01T00:00:00''),
          (''last_contact'', Str ''2024-01-01T00:00:00''), (''conversion_stage'', Str ''Lead'')]"

definition later :: "nat \<Rightarrow> world \<Rightarrow> world" where
  "later seconds w = w\<lparr>clock := clock w + seconds\<rparr>"




text \<open>
  Two users tables: one with a row whose \<^verbatim>\<open>username\<close> cell is blank (pandas reads a blank
  cell as \<^verbatim>\<open>NaN\<close>), one with an \<^verbatim>\<open>id\<close> that is no number.
\<close>

definition blank_username_table :: dataframe where
  "blank_username_table =
     \<lparr>columns = [''username'', ''password'', ''id''],
      rows = [[Str ''carol'', Str ''pw'', Num 1], [NaN, Str ''pw2'', Num 2]]\<rparr>"

definition bad_id_table :: dataframe where
  "bad_id_table =
     \<lparr>columns = [''username'', ''password'', ''id''],
      rows = [[Str ''carol'', Str ''pw'', Str ''abc'']]\<rparr>"


section \<open>Location shapes (MultiSheetManager)\<close>

lemma match_here_shape:
  assumes "match_here lit s = Some tok"
  shows "tok \<noteq> [] \<and> list_all id_char tok \<and> (\<exists>post. s = lit @ tok @ post)"
proof -
  from assms have p: "take (length lit) s = lit"
    and t: "tok = takeWhile id_char (drop (length lit) s)" and ne: "tok \<noteq> []"
    by (auto simp: match_here_def Let_def split: if_splits)
  have "s = take (length lit) s @ drop (length lit) s" by simp
  also have "\<dots> = lit @ (takeWhile id_char (drop (length lit) s)
                          @ dropWhile id_char (drop (length lit) s))"
    using p by simp
  finally have "s = lit @ tok @ dropWhile id_char (drop (length lit) s)" using t by simp
  moreover have "list_all id_char tok"
    using t by (simp add: list_all_iff) (meson set_takeWhileD)
  ultimately show ?thesis using ne by blast
qed

lemma re_search_id_shape:
  "re_search_id lit s = Some tok \<Longrightarrow> url_shape lit s tok"
proof (induction s)
  case Nil
  then show ?case using match_here_shape[of lit "[]" tok]
    by (auto simp: url_shape_def)
next
  case (Cons c cs)
  show ?case
  proof (cases "match_here lit (c # cs)")
    case None
    with Cons have "url_shape lit cs tok" by simp
    then obtain pre post where "cs = pre @ lit @ tok @ post"
      and tok: "tok \<noteq> []" "list_all id_char tok"
      by (auto simp: url_shape_def)
    then have "c # cs = (c # pre) @ lit @ tok @ post" by simp
    then show ?thesis using tok unfolding url_shape_def by blast
  next
    case (Some t)
    with Cons have "t = tok" by simp
    with Some match_here_shape[of lit "c # cs" tok] show ?thesis
      unfolding url_shape_def by (metis append_Nil)
  qed
qed

lemma match_here_found:
  assumes "sid \<noteq> []" and "list_all id_char sid"
  shows "match_here lit (lit @ sid @ post) \<noteq> None"
proof -
  obtain x xs where sid: "sid = x # xs" using assms(1) by (cases sid) auto
  then have "id_char x" using assms(2) by simp
  then have "takeWhile id_char (sid @ post) \<noteq> []" using sid by simp
  then show ?thesis by (simp add: match_here_def Let_def)
qed

lemma re_search_id_found:
  assumes "sid \<noteq> []" and "list_all id_char sid"
  shows "re_search_id lit (pre @ lit @ sid @ post) \<noteq> None"
proof (induction pre)
  case Nil
  show ?case using match_here_found[OF assms, of lit post]
    by (cases "lit @ sid @ post") (auto split: option.splits)
next
  case (Cons c pre)
  then show ?case by (auto split: option.splits)
qed

lemma re_search_id_None_iff:
  "re_search_id lit u = None \<longleftrightarrow> \<not> (\<exists>sid. url_shape lit u sid)"
proof
  assume "re_search_id lit u = None"
  then show "\<not> (\<exists>sid. url_shape lit u sid)"
    using re_search_id_found unfolding url_shape_def by metis
next
  assume "\<not> (\<exists>sid. url_shape lit u sid)"
  then show "re_search_id lit u = None"
    using re_search_id_shape by (cases "re_search_id lit u") auto
qed

lemma extract_sheet_id_None_iff:
  "extract_sheet_id u = None \<longleftrightarrow>
     \<not> (\<exists>sid. url_shape ''/spreadsheets/d/'' u sid \<or> url_shape ''id='' u sid)"
  using re_search_id_None_iff[of "''/spreadsheets/d/''" u] re_search_id_None_iff[of "''id=''" u]
  by (auto simp: extract_sheet_id_def split: option.splits)

lemma extract_sheet_id_Some:
  "extract_sheet_id u = Some sid \<Longrightarrow>
     url_shape ''/spreadsheets/d/'' u sid \<or> url_shape ''id='' u sid"
  by (auto simp: extract_sheet_id_def split: option.splits dest: re_search_id_shape)

text \<open>
  C8. For a configured, nonempty location: when the location has one of the two accepted
  shapes (it contains \<^verbatim>\<open>/spreadsheets/d/<ID>\<close> or \<^verbatim>\<open>id=<ID>\<close>, the identifier a nonempty
  token of letters, digits, hyphens and underscores), the one request made goes to the
  export address of an identifier that the location has in such a shape; when it has
  neither, the result is no table with the message \<^verbatim>\<open>Invalid URL format\<close>, and the state,
  with its list of requests, is unchanged: nothing was fetched and nothing raised.
\<close>

theorem load_sheet_by_type_url_shapes:
  assumes "get_sheet_by_type (sheets_config w) t = Inr (Some sc)"
    and "url sc = Some u" and "u \<noteq> []"
  shows "if \<exists>sid. url_shape ''/spreadsheets/d/'' u sid \<or> url_shape ''id='' u sid
         then \<exists>sid. (url_shape ''/spreadsheets/d/'' u sid \<or> url_shape ''id='' u sid)
                \<and> requests (snd (load_sheet_by_type e w t)) = requests w @ [import_url sid]
         else load_sheet_by_type e w t = (Inr (None, ''Invalid URL format''), w)"
proof (cases "extract_sheet_id u")
  case None
  then show ?thesis using assms extract_sheet_id_None_iff[of u]
    by (simp add: load_sheet_by_type_def)
next
  case (Some sid)
  then have sh: "url_shape ''/spreadsheets/d/'' u sid \<or> url_shape ''id='' u sid"
    by (rule extract_sheet_id_Some)
  have "requests (snd (load_sheet_by_type e w t)) = requests w @ [import_url sid]"
    using assms Some by (simp add: load_sheet_by_type_def Let_def split: sum.splits)
  with sh show ?thesis by auto
qed

theorem load_sheet_by_type_url_shapes_witness:
  "get_sheet_by_type (sheets_config (configured ''clients'' ''https://example.com/sheet''))
       ''clients''
     = Inr (Some \<lparr>sheet_type = Some ''clients'', url = Some ''https://example.com/sheet'',
                  label = None, configured_at = None\<rparr>)
   \<and> load_sheet_by_type offline_env (configured ''clients'' ''https://example.com/sheet'')
       ''clients''
     = (Inr (None, ''Invalid URL format''), configured ''clients'' ''https://example.com/sheet'')"
proof -
  let ?u = "''https://example.com/sheet''"
  let ?sc = "\<lparr>sheet_type = Some ''clients'', url = Some ?u, label = None, configured_at = None\<rparr>"
  have cfg: "get_sheet_by_type (sheets_config (configured ''clients'' ?u)) ''clients''
               = Inr (Some ?sc)"
    by (simp add: configured_def fresh_world_def)
  have "extract_sheet_id ?u = None"
    by (simp add: extract_sheet_id_def match_here_def)
  then have no: "\<not> (\<exists>sid. url_shape ''/spreadsheets/d/'' ?u sid \<or> url_shape ''id='' ?u sid)"
    using extract_sheet_id_None_iff[of ?u] by blast
  have "load_sheet_by_type offline_env (configured ''clients'' ?u) ''clients''
          = (Inr (None, ''Invalid URL format''), configured ''clients'' ?u)"
    using load_sheet_by_type_url_shapes[OF cfg, of ?u offline_env] no by simp
  with cfg show ?thesis by simp
qed


section \<open>Authentication\<close>

lemma load_users_bob: "load_users offline_env bob_world = ([(''bob'', bob)], bob_world)"
  by (simp add: load_users_def UsersSheetHandler_load_users_def load_sheet_by_type_def
      bob_world_def fresh_world_def)

lemma load_users_legacy:
  "load_users offline_env legacy_world = ([(''bob'', bob\<lparr>password := PwStr ''secret''\<rparr>)], legacy_world)"
  by (simp add: load_users_def UsersSheetHandler_load_users_def load_sheet_by_type_def
      legacy_world_def fresh_world_def)

text \<open>
  C9. With a username or a password that is empty or missing, \<^verbatim>\<open>authenticate_user\<close>
  returns \<^verbatim>\<open>None\<close> and leaves the state as it was, whatever the state and the environment
  are: the user store is not loaded, so no request is made and no file is written, and no
  account is matched by the empty password, not even one whose stored password is empty.
\<close>

theorem authenticate_user_empty_refused:
  "\<not> truthy username \<or> \<not> truthy pw \<Longrightarrow> authenticate_user e w username pw = (None, w)"
  by (simp add: authenticate_user_def)

theorem authenticate_user_empty_refused_witness:
  "\<not> truthy (Some [])
   \<and> map_of (fst (load_users offline_env bob_world)) ''bob'' = Some bob
   \<and> password bob = PwStr []
   \<and> authenticate_user offline_env bob_world (Some ''bob'') (Some []) = (None, bob_world)"
  using authenticate_user_empty_refused [of "Some ''bob''" "Some []" offline_env bob_world]
  by (simp add: load_users_bob bob_def)

text \<open>
  C2, as the code has it. For a username and a password that are both nonempty, and a store
  in which the entry of the username, if there is one, holds a string as its password:
  \<^verbatim>\<open>authenticate_user\<close> returns the identity of the user if the username is in the store
  and either the hash check succeeds, or it raises and the password equals the stored
  string; in every other case, and whenever the username or the password is empty, it
  returns \<^verbatim>\<open>None\<close>.
\<close>

theorem authenticate_user_iff:
  assumes "load_users e w = (users, w')"
    and "\<forall>u. map_of users name = Some u \<longrightarrow> (\<exists>s. password u = PwStr s)"
  shows "fst (authenticate_user e w (Some name) (Some pass)) =
           (if name \<noteq> [] \<and> pass \<noteq> [] \<and> spec_accepts e users name pass
            then map_option (make_identity name) (map_of users name) else None)"
  using assms
  by (auto simp: authenticate_user_def spec_accepts_def
           split: option.splits pwval.splits bool.splits)

theorem authenticate_user_iff_witness:
  "load_users offline_env legacy_world
     = ([(''bob'', bob\<lparr>password := PwStr ''secret''\<rparr>)], legacy_world)
   \<and> map_of [(''bob'', bob\<lparr>password := PwStr ''secret''\<rparr>)] ''bob''
       = Some (bob\<lparr>password := PwStr ''secret''\<rparr>)
   \<and> password (bob\<lparr>password := PwStr ''secret''\<rparr>) = PwStr ''secret''
   \<and> fst (authenticate_user offline_env legacy_world (Some ''bob'') (Some ''secret''))
       = Some (make_identity ''bob'' (bob\<lparr>password := PwStr ''secret''\<rparr>))
   \<and> fst (authenticate_user offline_env legacy_world (Some ''bob'') (Some ''guess'')) = None"
proof -
  let ?users = "[(''bob'', bob\<lparr>password := PwStr ''secret''\<rparr>)]"
  have typed: "\<forall>u. map_of ?users ''bob'' = Some u \<longrightarrow> (\<exists>s. password u = PwStr s)"
    by simp
  have yes: "spec_accepts offline_env ?users ''bob'' ''secret''"
    and no: "\<not> spec_accepts offline_env ?users ''bob'' ''guess''"
    by (simp_all add: spec_accepts_def offline_env_def)
  show ?thesis
    using authenticate_user_iff [OF load_users_legacy typed, of "''secret''"]
      authenticate_user_iff [OF load_users_legacy typed, of "''guess''"]
      yes no load_users_legacy
    by simp
qed

text \<open>
  The claim as the specification states it fails at the empty password: the account
  \<^verbatim>\<open>bob\<close> is in the store, the hash check raises on its stored value, the empty string,
  and the password equals it, yet nobody is authenticated.
\<close>

theorem authenticate_user_empty_password_counterexample:
  "spec_accepts offline_env (fst (load_users offline_env bob_world)) ''bob'' []
   \<and> fst (authenticate_user offline_env bob_world (Some ''bob'') (Some [])) = None"
proof -
  have "spec_accepts offline_env [(''bob'', bob)] ''bob'' []"
    by (simp add: spec_accepts_def bob_def offline_env_def)
  moreover have "fst (authenticate_user offline_env bob_world (Some ''bob'') (Some [])) = None"
    by (simp add: authenticate_user_def)
  ultimately show ?thesis by (simp add: load_users_bob)
qed


section \<open>Removing a user (ManagerControlPanel)\<close>

text \<open>
  C7. When the user selected for removal is the acting user, the removal is refused: the
  page shows the warning \<^verbatim>\<open>Cannot remove your own account or system administrator\<close>,
  \<^verbatim>\<open>_remove_user\<close> is not called, and the panel's user dictionary and the state, with
  \<^verbatim>\<open>users.json\<close> in it, are as before.
\<close>

theorem remove_own_account_refused:
  "session_user w = Some me \<Longrightarrow>
   render_staff_table_remove w users (Some (ident_username me))
     = Inr ((Warning cannot_remove, users), w)"
  by (simp add: render_staff_table_remove_def)

theorem remove_own_account_refused_witness:
  "session_user (logged_in ''bob'' ''manager'' bob_world) = Some (as_identity ''bob'' ''manager'')
   \<and> render_staff_table_remove (logged_in ''bob'' ''manager'' bob_world) [(''bob'', bob)]
         (Some ''bob'')
       = Inr ((Warning cannot_remove, [(''bob'', bob)]), logged_in ''bob'' ''manager'' bob_world)
   \<and> fst (fst (remove_user (logged_in ''bob'' ''manager'' bob_world) [(''bob'', bob)] ''bob''))
       = Success ''User bob removed successfully''"
proof -
  have s: "session_user (logged_in ''bob'' ''manager'' bob_world) = Some (as_identity ''bob'' ''manager'')"
    by (simp add: logged_in_def)
  have "ident_username (as_identity ''bob'' ''manager'') = ''bob''"
    by (simp add: as_identity_def)
  then show ?thesis
    using remove_own_account_refused [OF s, of "[(''bob'', bob)]"] s
    by (simp add: remove_user_def logged_in_def bob_world_def fresh_world_def log_activity_def)
qed


section \<open>The row filter for the role sales\<close>

lemma lower_leads:
  "lower ''Alice'' = ''alice''" "lower ''alice.smith'' = ''alice.smith''"
  "lower ''Bob'' = ''bob''" "lower ''alice'' = ''alice''"
  by code_simp+

lemma remote_leads:
  "load_sheet_by_type (serving leads_table) (configured ''clients'' sheet_url) ''clients''
    = (Inr (Some leads_table, ''Successfully loaded''),
       (configured ''clients'' sheet_url)\<lparr>requests := [import_url ''1AbC-d_9'']\<rparr>)"
  by (simp add: load_sheet_by_type_def configured_def fresh_world_def sheet_url_def
      extract_sheet_id_def match_here_def id_char_def serving_def offline_env_def
      leads_table_def df_empty_def Let_def)

lemma strip_leads: "strip ''name'' = ''name''" "strip ''assigned_to'' = ''assigned_to''"
  by (simp_all add: strip_def is_space_def)

lemma mapping_leads:
  "apply_column_mapping clients_mapping [''name'', ''assigned_to''] = [''name'', ''assigned_to'']"
  by (simp add: clients_mapping_def rename_column_def)

lemma filter_rows_total:
  "(\<And>row. row \<in> set rs \<Longrightarrow> p row = Inr (q row)) \<Longrightarrow> filter_rows p rs = Inr (filter q rs)"
  by (induction rs) auto

lemma ClientsSheetHandler_sales_rule:
  assumes "load_sheet_by_type e w ''clients'' = (Inr (Some df0, msg), w')"
    and "name \<noteq> []" and "literal_pattern name"
    and "cols = apply_column_mapping clients_mapping (map strip (columns df0))"
    and "''assigned_to'' \<in> set cols"
  shows "fst (ClientsSheetHandler_load_clients e w (Some name) (Some ''sales''))
           = Inr (to_dict_records
                    \<lparr>columns = cols,
                     rows = filter (\<lambda>row. contains (lower name)
                                            (lower (py_str e (row_get cols row ''assigned_to'' NaN))))
                                   (rows df0)\<rparr>)"
proof -
  have "filter_rows (\<lambda>row. str_contains e name (py_str e (row_get cols row ''assigned_to'' NaN)))
          (rows df0)
        = Inr (filter (\<lambda>row. contains (lower name)
                               (lower (py_str e (row_get cols row ''assigned_to'' NaN))))
                      (rows df0))"
    by (rule filter_rows_total) (simp add: str_contains_def assms(3))
  then show ?thesis using assms
    by (simp add: ClientsSheetHandler_load_clients_def clients_of_sheet_def strip_columns_def
        Let_def to_dict_records_def df_empty_def)
qed

text \<open>
  C1, where the code departs from it. On the remote path the role \<^verbatim>\<open>sales\<close> gets the
  records whose \<^verbatim>\<open>assigned_to\<close> contains the identity, ignoring case: of the leads
  assigned to \<^verbatim>\<open>Alice\<close>, \<^verbatim>\<open>alice.smith\<close> and \<^verbatim>\<open>Bob\<close>, the identity \<^verbatim>\<open>alice\<close> gets
  the first two. On the backup path \<^verbatim>\<open>_load_local_backup\<close> keeps the records whose
  \<^verbatim>\<open>assigned_to\<close> equals the identity, and the same identity gets none of the same
  three leads.
\<close>

theorem sales_filter_remote_and_backup_differ:
  "fst (ClientsSheetHandler_load_clients (serving leads_table) (configured ''clients'' sheet_url)
          (Some ''alice'') (Some ''sales''))
     = Inr (take 2 leads)
   \<and> ClientDatabase_load_local_backup leads_backup_world (Some ''alice'') (Some ''sales'')
     = \<lparr>clients = [], next_id = 1, sources = client_sources\<rparr>"
proof -
  have "fst (ClientsSheetHandler_load_clients (serving leads_table)
               (configured ''clients'' sheet_url) (Some ''alice'') (Some ''sales''))
          = Inr (take 2 leads)"
    unfolding ClientsSheetHandler_load_clients_def remote_leads
    by (simp add: clients_of_sheet_def strip_columns_def
        leads_table_def strip_leads mapping_leads str_contains_def literal_pattern_def metachars_def
        lower_leads row_get_def to_dict_records_def df_empty_def to_record_def leads_def Let_def)
  moreover have "ClientDatabase_load_local_backup leads_backup_world (Some ''alice'') (Some ''sales'')
     = \<lparr>clients = [], next_id = 1, sources = client_sources\<rparr>"
    by (simp add: ClientDatabase_load_local_backup_def leads_backup_world_def fresh_world_def
        leads_def Let_def)
  ultimately show ?thesis by simp
qed


section \<open>Loading without a remote and without a backup\<close>

lemma failed_fetch:
  assumes "fetch_fails e w t"
  obtains msg w' where "load_sheet_by_type e w t = (Inr (None, msg), w')"
  using assms
  by (cases "load_sheet_by_type e w t")
     (auto simp: fetch_fails_def split: sum.splits option.splits prod.splits)

lemma load_sheet_by_type_keeps_files:
  "properties_backup (snd (load_sheet_by_type e w t)) = properties_backup w
   \<and> clients_backup (snd (load_sheet_by_type e w t)) = clients_backup w
   \<and> users_json (snd (load_sheet_by_type e w t)) = users_json w
   \<and> disk_writable (snd (load_sheet_by_type e w t)) = disk_writable w
   \<and> session_user (snd (load_sheet_by_type e w t)) = session_user w
   \<and> now (snd (load_sheet_by_type e w t)) = now w
   \<and> clock (snd (load_sheet_by_type e w t)) = clock w
   \<and> clients_cache (snd (load_sheet_by_type e w t)) = clients_cache w
   \<and> activity_log (snd (load_sheet_by_type e w t)) = activity_log w"
  by (simp add: load_sheet_by_type_def Let_def split: option.splits sum.splits)

lemma properties_empty:
  assumes "fetch_fails e w ''properties''"
    and "\<forall>df. properties_backup w \<noteq> Content df"
  shows "fst (PropertyDatabase_load_properties e w) = Inr empty_frame"
proof -
  from assms(1) obtain msg w' where
    l: "load_sheet_by_type e w ''properties'' = (Inr (None, msg), w')"
    by (rule failed_fetch)
  then have "properties_backup w' = properties_backup w"
    using load_sheet_by_type_keeps_files[of e w "''properties''"] by simp
  with assms(2) have "PropertyDatabase_load_local_backup w' = empty_frame"
    by (cases "properties_backup w") (auto simp: PropertyDatabase_load_local_backup_def)
  with l show ?thesis
    by (simp add: PropertyDatabase_load_properties_def PropertiesSheetHandler_load_properties_def
        df_empty_def empty_frame_def)
qed

lemma metrics_empty:
  assumes "fst (PropertyDatabase_load_properties e w) = Inr empty_frame"
  shows "fst (get_inventory_metrics e w) = Inr zero_metrics"
  using assms
  by (cases "PropertyDatabase_load_properties e w")
     (simp add: get_inventory_metrics_def inventory_metrics_of_def df_empty_def empty_frame_def
        zero_metrics_def)

lemma clients_body_empty:
  assumes "fetch_fails e w ''clients''"
    and "\<forall>d. clients_backup w \<noteq> Content d"
  shows "fst (load_clients_body e w username user_role)
           = Inr \<lparr>clients = [], next_id = 1, sources = []\<rparr>"
proof -
  from assms(1) obtain msg w' where l: "load_sheet_by_type e w ''clients'' = (Inr (None, msg), w')"
    by (rule failed_fetch)
  then have "clients_backup w' = clients_backup w"
    using load_sheet_by_type_keeps_files[of e w "''clients''"] by simp
  with assms(2) have "ClientDatabase_load_local_backup w' username user_role
                        = \<lparr>clients = [], next_id = 1, sources = []\<rparr>"
    by (cases "clients_backup w") (auto simp: ClientDatabase_load_local_backup_def)
  with l show ?thesis
    by (simp add: load_clients_body_def ClientsSheetHandler_load_clients_def)
qed

lemma clients_empty:
  assumes "fetch_fails e w ''clients''"
    and "\<forall>d. clients_backup w \<noteq> Content d"
    and "cache_get (clients_cache w) 300 (clock w) (username, user_role) = None"
  shows "fst (ClientDatabase_load_clients e w username user_role)
           = Inr \<lparr>clients = [], next_id = 1, sources = []\<rparr>"
  using clients_body_empty[OF assms(1,2), of username user_role] assms(3)
  by (cases "load_clients_body e w username user_role")
     (simp add: ClientDatabase_load_clients_def)

lemma activity_empty:
  assumes "fetch_fails e w ''activity''"
  shows "fst (load_activity_logs e w limit) = Inr empty_frame"
  using assms by (rule failed_fetch) (simp add: load_activity_logs_def)

lemma transactions_empty:
  assumes "fetch_fails e w ''transactions''"
  shows "fst (load_transactions e w) = Inr empty_frame"
  using assms by (rule failed_fetch) (simp add: load_transactions_def)

lemma not_configured_fails:
  "get_sheet_by_type (sheets_config w) t = Inr None \<Longrightarrow> fetch_fails e w t"
  by (simp add: fetch_fails_def load_sheet_by_type_def)

lemma users_default:
  assumes "fetch_fails e w ''users''"
    and "\<forall>us. users_json w \<noteq> Content us"
  shows "fst (load_users e w) = default_users e (snd (load_sheet_by_type e w ''users''))"
proof -
  from assms(1) obtain msg w' where l: "load_sheet_by_type e w ''users'' = (Inr (None, msg), w')"
    by (rule failed_fetch)
  then have "users_json w' = users_json w"
    using load_sheet_by_type_keeps_files[of e w "''users''"] by simp
  with assms(2) l show ?thesis
    by (cases "users_json w")
       (auto simp: load_users_def UsersSheetHandler_load_users_def create_default_users_def)
qed

text \<open>What is left out of C4: a configuration of another shape makes the loads raise.\<close>

lemma malformed_registry_raises:
  assumes "get_sheet_by_type (sheets_config w) t = Inl x"
  shows "load_sheet_by_type e w t = (Inl x, w)"
    and "fst (load_transactions e (w\<lparr>sheets_config := NotAnObject\<rparr>)) = Inl AttributeError"
    and "fst (load_activity_logs e (w\<lparr>sheets_config := SheetsNotIterable\<rparr>) limit) = Inl TypeError"
    and "fst (PropertyDatabase_load_properties e (w\<lparr>sheets_config := Sheets [NotAnEntry]\<rparr>))
           = Inl AttributeError"
    and "fst (load_clients_body e (w\<lparr>sheets_config := NotAnObject\<rparr>) username user_role)
           = Inl AttributeError"
  using assms
  by (simp_all add: load_sheet_by_type_def load_transactions_def load_activity_logs_def
      PropertyDatabase_load_properties_def PropertiesSheetHandler_load_properties_def
      load_clients_body_def ClientsSheetHandler_load_clients_def)

text \<open>
  C4, as the code has it. When the remote fetch fails, for whatever reason
  \<^verbatim>\<open>load_sheet_by_type\<close> returns no table (the type not configured, no URL, a URL of no
  accepted shape, \<^verbatim>\<open>pd.read_excel\<close> raising, an empty sheet), and the local backup, where
  the handler has one, is missing or unreadable, the load of properties, clients, activity
  and transactions returns the empty result and raises nothing; for the clients this is
  the load that the memoisation does not answer. The inventory metrics are then all zero;
  when the configuration has no \<^verbatim>\<open>transactions\<close> entry the transactions load is the empty
  table, whose row count is 0. The load of users is different: without a remote table and
  without \<^verbatim>\<open>users.json\<close> it returns the six default accounts.
\<close>

theorem loads_empty_without_remote_and_backup:
  "(fetch_fails e w ''properties'' \<and> (\<forall>df. properties_backup w \<noteq> Content df)
      \<longrightarrow> fst (PropertyDatabase_load_properties e w) = Inr empty_frame
          \<and> fst (get_inventory_metrics e w) = Inr zero_metrics)
   \<and> (fetch_fails e w ''clients'' \<and> (\<forall>d. clients_backup w \<noteq> Content d)
       \<and> cache_get (clients_cache w) 300 (clock w) (username, user_role) = None
      \<longrightarrow> fst (ClientDatabase_load_clients e w username user_role)
            = Inr \<lparr>clients = [], next_id = 1, sources = []\<rparr>)
   \<and> (fetch_fails e w ''activity''
      \<longrightarrow> fst (load_activity_logs e w limit) = Inr empty_frame)
   \<and> (fetch_fails e w ''transactions''
      \<longrightarrow> fst (load_transactions e w) = Inr empty_frame)
   \<and> (get_sheet_by_type (sheets_config w) ''transactions'' = Inr None
      \<longrightarrow> fst (load_transactions e w) = Inr empty_frame \<and> length (rows empty_frame) = 0)
   \<and> (fetch_fails e w ''users'' \<and> (\<forall>us. users_json w \<noteq> Content us)
      \<longrightarrow> fst (load_users e w) = default_users e (snd (load_sheet_by_type e w ''users'')))"
  using properties_empty[of e w] metrics_empty[of e w] clients_empty[of e w username user_role]
    activity_empty[of e w limit] transactions_empty[of e w]
    not_configured_fails[of w "''transactions''" e] users_default[of e w]
  by (simp add: empty_frame_def)

theorem loads_empty_without_remote_and_backup_witness:
  "get_sheet_by_type (sheets_config fresh_world) ''transactions'' = Inr None
   \<and> fst (load_transactions offline_env fresh_world) = Inr empty_frame
   \<and> length (rows empty_frame) = 0
   \<and> fetch_fails offline_env fresh_world ''clients''
   \<and> clients_backup fresh_world = Absent
   \<and> cache_get (clients_cache fresh_world) 300 (clock fresh_world) (Some ''alice'', Some ''sales'')
       = None
   \<and> fst (ClientDatabase_load_clients offline_env fresh_world (Some ''alice'') (Some ''sales''))
       = Inr \<lparr>clients = [], next_id = 1, sources = []\<rparr>"
proof -
  have a: "get_sheet_by_type (sheets_config fresh_world) ''transactions'' = Inr None"
    and b: "fetch_fails offline_env fresh_world ''clients''"
    and c: "clients_backup fresh_world = Absent"
    and d: "cache_get (clients_cache fresh_world) 300 (clock fresh_world)
              (Some ''alice'', Some ''sales'') = None"
    by (simp_all add: fresh_world_def load_sheet_by_type_def fetch_fails_def cache_get_def)
  show ?thesis
    using loads_empty_without_remote_and_backup
            [of offline_env fresh_world "Some ''alice''" "Some ''sales''" 100] a b c d
    by (simp add: empty_frame_def)
qed

text \<open>
  The claim as the specification states it, for every handler, fails for the users: on a
  fresh installation the remote fetch fails and \<^verbatim>\<open>users.json\<close> is absent, and
  \<^verbatim>\<open>load_users\<close> returns six accounts.
\<close>

theorem load_users_defaults_counterexample:
  "fetch_fails offline_env fresh_world ''users''
   \<and> users_json fresh_world = Absent
   \<and> map fst (fst (load_users offline_env fresh_world))
       = [''admin'', ''manager'', ''analyst'', ''sales1'', ''sales2'', ''data_entry'']"
  by (simp add: fresh_world_def load_sheet_by_type_def load_users_def fetch_fails_def
      UsersSheetHandler_load_users_def create_default_users_def default_users_def)

section \<open>Adding a client (ClientDatabase)\<close>

lemma load_sheet_by_type_Some_nonempty:
  "load_sheet_by_type e w t = (Inr (Some df, msg), w') \<Longrightarrow> \<not> df_empty df"
  by (auto simp: load_sheet_by_type_def Let_def split: option.splits sum.splits if_splits)

lemma length_rename_column: "length (rename_column a b cols) = length cols"
  by (simp add: rename_column_def)

lemma length_map_aliases: "length (map_aliases s as cols) = length cols"
  by (induction as arbitrary: cols) (auto simp: length_rename_column)

lemma length_apply_column_mapping: "length (apply_column_mapping m cols) = length cols"
  by (induction m arbitrary: cols) (auto simp: length_map_aliases)

lemma load_clients_body_unfiltered:
  assumes "user_role \<noteq> Some ''sales''"
    and "fst (load_sheet_by_type e w ''clients'') = Inr r"
  shows "\<exists>srcs. fst (load_clients_body e w username user_role)
           = Inr \<lparr>clients = all_client_records e w,
                  next_id = int (length (all_client_records e w)) + 1,
                  sources = srcs\<rparr>"
proof -
  obtain o' msg where r: "r = (o', msg)" by (cases r)
  obtain w' where l: "load_sheet_by_type e w ''clients'' = (Inr (o', msg), w')"
    using assms(2) r by (cases "load_sheet_by_type e w ''clients''") auto
  have kb: "clients_backup w' = clients_backup w"
    using load_sheet_by_type_keeps_files[of e w "''clients''"] l by simp
  show ?thesis
  proof (cases o')
    case None
    then show ?thesis using l kb assms(1)
      by (cases "clients_backup w")
         (simp_all add: load_clients_body_def ClientsSheetHandler_load_clients_def
            all_client_records_def ClientDatabase_load_local_backup_def Let_def)
  next
    case (Some df0)
    with l have ne: "\<not> df_empty df0" using load_sheet_by_type_Some_nonempty by simp
    then have ne': "columns df0 \<noteq> []" "rows df0 \<noteq> []" by (auto simp: df_empty_def)
    have "map strip (columns df0) \<noteq> []" using ne' by simp
    then have "apply_column_mapping clients_mapping (map strip (columns df0)) \<noteq> []"
      by (metis length_apply_column_mapping length_0_conv)
    then show ?thesis using l Some assms(1) ne'
      by (cases username)
         (auto simp: load_clients_body_def ClientsSheetHandler_load_clients_def
            clients_of_sheet_def all_client_records_def to_dict_records_def df_empty_def
            strip_columns_def Let_def)
  qed
qed

lemma load_clients_body_keeps:
  "session_user (snd (load_clients_body e w username user_role)) = session_user w
   \<and> now (snd (load_clients_body e w username user_role)) = now w
   \<and> clock (snd (load_clients_body e w username user_role)) = clock w
   \<and> disk_writable (snd (load_clients_body e w username user_role)) = disk_writable w"
proof -
  obtain r w' where l: "load_sheet_by_type e w ''clients'' = (r, w')"
    by (cases "load_sheet_by_type e w ''clients''")
  then have k: "session_user w' = session_user w" "now w' = now w" "clock w' = clock w"
    "disk_writable w' = disk_writable w"
    using load_sheet_by_type_keeps_files[of e w "''clients''"] by simp_all
  show ?thesis using l k
    by (auto simp: load_clients_body_def ClientsSheetHandler_load_clients_def Let_def
             split: option.splits sum.splits prod.splits)
qed

text \<open>
  What \<^verbatim>\<open>add_client\<close> does when the memoisation does not answer its load and the load
  does not raise: the new \<^verbatim>\<open>client_id\<close> is the number of records the handler has,
  unfiltered, plus 1; the payload gets that \<^verbatim>\<open>client_id\<close>, \<^verbatim>\<open>conversion_stage\<close>
  \<^verbatim>\<open>Lead\<close>, \<^verbatim>\<open>created_at\<close> and \<^verbatim>\<open>last_contact\<close>, and, for the acting role
  \<^verbatim>\<open>sales\<close> and a payload without \<^verbatim>\<open>assigned_to\<close>, the acting username as
  \<^verbatim>\<open>assigned_to\<close>.
\<close>

lemma add_client_on_miss:
  assumes "session_user w = Some me"
    and "cache_get (clients_cache w) 300 (clock w) (Some ''system'', Some ''owner'') = None"
    and "fst (load_sheet_by_type e w ''clients'') = Inr r"
  shows "\<exists>d w'.
     add_client e w payload username
       = ((Some (int (length (all_client_records e w)) + 1), d), w')
   \<and> map_of d ''client_id'' = Some (Num (of_int (int (length (all_client_records e w)) + 1)))
   \<and> map_of d ''conversion_stage'' = Some (Str ''Lead'')
   \<and> map_of d ''created_at'' = Some (Str (now w))
   \<and> map_of d ''last_contact'' = Some (Str (now w))
   \<and> map_of d ''assigned_to''
       = (if unassigned payload \<and> ident_role me = ''sales'' then Some (Str username)
          else map_of payload ''assigned_to'')
   \<and> (disk_writable w \<longrightarrow>
         clients_backup w'
           = Content \<lparr>file_clients = all_client_records e w @ [d], last_sync = now w\<rparr>)"
proof -
  obtain b w1 where l: "load_clients_body e w (Some ''system'') (Some ''owner'') = (b, w1)"
    by (cases "load_clients_body e w (Some ''system'') (Some ''owner'')")
  have k: "session_user w1 = Some me" "now w1 = now w" "disk_writable w1 = disk_writable w"
    using load_clients_body_keeps[of e w "Some ''system''" "Some ''owner''"] l assms(1)
    by simp_all
  obtain srcs where b: "b = Inr \<lparr>clients = all_client_records e w,
                                   next_id = int (length (all_client_records e w)) + 1,
                                   sources = srcs\<rparr>"
    using load_clients_body_unfiltered[OF _ assms(3), of "Some ''owner''" "Some ''system''"] l
    by auto
  show ?thesis
    using l b k assms(2)
    by (simp add: add_client_def ClientDatabase_load_clients_def unassigned_def Let_def
        log_activity_def update_conv')
qed

lemma first_add:
  "add_client offline_env sales_world jane ''agent007''
     = ((Some 3, as_third_lead jane),
        sales_world
          \<lparr>clients_cache :=
             [((Some ''system'', Some ''owner''),
               \<lparr>clients = two_clients, next_id = 3, sources = client_sources\<rparr>, 1000)],
           activity_log := [''2024-01-01T00:00:00|agent007|add_client|Client: Jane Doe, Value: 0''],
           clients_backup :=
             Content \<lparr>file_clients = two_clients @ [as_third_lead jane],
                      last_sync = ''2024-01-01T00:00:00''\<rparr>\<rparr>)"
  by (simp add: add_client_def ClientDatabase_load_clients_def load_clients_body_def
      cache_get_def ClientsSheetHandler_load_clients_def ClientDatabase_load_local_backup_def
      load_sheet_by_type_def sales_world_def logged_in_def fresh_world_def two_clients_def
      as_identity_def log_activity_def Let_def jane_def as_third_lead_def str_of_get_def
      offline_env_def)

lemma second_add:
  "add_client offline_env
     (later 60 (snd (add_client offline_env sales_world jane ''agent007''))) john ''agent007''
     = ((Some 3, as_third_lead john),
        sales_world
          \<lparr>clients_cache :=
             [((Some ''system'', Some ''owner''),
               \<lparr>clients = two_clients, next_id = 3, sources = client_sources\<rparr>, 1000)],
           clock := 1060,
           activity_log := [''2024-01-01T00:00:00|agent007|add_client|Client: Jane Doe, Value: 0'',
                            ''2024-01-01T00:00:00|agent007|add_client|Client: John Roe, Value: 0''],
           clients_backup :=
             Content \<lparr>file_clients = two_clients @ [as_third_lead john],
                      last_sync = ''2024-01-01T00:00:00''\<rparr>\<rparr>)"
  unfolding first_add
  by (simp add: add_client_def ClientDatabase_load_clients_def 
      cache_get_def later_def sales_world_def logged_in_def fresh_world_def two_clients_def
      as_identity_def log_activity_def Let_def john_def as_third_lead_def str_of_get_def
      offline_env_def)

text \<open>
  C3, where the code departs from it. \<^verbatim>\<open>add_client\<close> reads the records through
  \<^verbatim>\<open>load_clients\<close>, which \<^verbatim>\<open>st.cache_data\<close> answers for 300 seconds from its first
  result, and never clears that cache. With two clients in the backup, the first client
  added gets \<^verbatim>\<open>client_id\<close> 3 and the backup then holds three records. A second client
  added 60 seconds later gets \<^verbatim>\<open>client_id\<close> 3 again, not 4, and the backup is rewritten
  as the two old records and the second new one: the first new record is gone.
\<close>

theorem add_client_twice_same_id:
  "fst (add_client offline_env sales_world jane ''agent007'') = (Some 3, as_third_lead jane)
   \<and> clients_backup (snd (add_client offline_env sales_world jane ''agent007''))
       = Content \<lparr>file_clients = two_clients @ [as_third_lead jane],
                  last_sync = ''2024-01-01T00:00:00''\<rparr>
   \<and> fst (add_client offline_env
             (later 60 (snd (add_client offline_env sales_world jane ''agent007'')))
             john ''agent007'')
       = (Some 3, as_third_lead john)
   \<and> clients_backup
         (snd (add_client offline_env
                 (later 60 (snd (add_client offline_env sales_world jane ''agent007'')))
                 john ''agent007''))
       = Content \<lparr>file_clients = two_clients @ [as_third_lead john],
                  last_sync = ''2024-01-01T00:00:00''\<rparr>"
proof -
  have "fst (add_client offline_env sales_world jane ''agent007'') = (Some 3, as_third_lead jane)"
    and "clients_backup (snd (add_client offline_env sales_world jane ''agent007''))
           = Content \<lparr>file_clients = two_clients @ [as_third_lead jane],
                      last_sync = ''2024-01-01T00:00:00''\<rparr>"
    unfolding first_add by simp_all
  moreover
  have "fst (add_client offline_env
               (later 60 (snd (add_client offline_env sales_world jane ''agent007'')))
               john ''agent007'')
          = (Some 3, as_third_lead john)"
    and "clients_backup
           (snd (add_client offline_env
                   (later 60 (snd (add_client offline_env sales_world jane ''agent007'')))
                   john ''agent007''))
          = Content \<lparr>file_clients = two_clients @ [as_third_lead john],
                     last_sync = ''2024-01-01T00:00:00''\<rparr>"
    unfolding second_add by simp_all
  ultimately show ?thesis by blast
qed

section \<open>Normalising a fetched table\<close>









































lemma loaders_normalize:
  "load_sheet_by_type e w ''properties'' = (Inr (Some df0, msg), w') \<Longrightarrow>
     PropertiesSheetHandler_load_properties e w = (Inr (normalize_properties e df0), w')"
  "load_sheet_by_type e w ''clients'' = (Inr (Some df0, msg), w') \<Longrightarrow>
     ClientsSheetHandler_load_clients e w username role'
       = (clients_of_sheet e df0 username role', w')"
  "load_sheet_by_type e w ''users'' = (Inr (Some df0, msg), w') \<Longrightarrow>
     UsersSheetHandler_load_users e w = (users_of_sheet e df0, w')"
  by (simp_all add: PropertiesSheetHandler_load_properties_def
      ClientsSheetHandler_load_clients_def UsersSheetHandler_load_users_def)





section \<open>Numeric columns and the inventory metrics\<close>














end
